theory Spec2Isabelle
  imports Main "HOL-Library.Word"
begin

unbundle bit_operations_syntax

section \<open>The elevator controller of main.c\<close>

subsection \<open>Data\<close>

text \<open>
  The variable \<open>state\<close> of main.c is an \<open>unsigned char\<close> that only ever holds one of
  seven character constants; the program uses it as an enumeration:
  \<^item> \<open>'i'\<close> is \<open>Initializing\<close>, \<open>'x'\<close> is \<open>Idle\<close>,
  \<^item> \<open>'^'\<close> is \<open>MovingToCallUp\<close>, \<open>'v'\<close> is \<open>MovingToCallDown\<close>,
  \<^item> \<open>'w'\<close> is \<open>AwaitingSelection\<close>,
  \<^item> \<open>'u'\<close> is \<open>MovingToDestinationUp\<close>, \<open>'d'\<close> is \<open>MovingToDestinationDown\<close>.
\<close>

datatype elev_state =
    Initializing
  | Idle
  | MovingToCallUp
  | MovingToCallDown
  | AwaitingSelection
  | MovingToDestinationUp
  | MovingToDestinationDown

text \<open>The three motor functions of main.c: \<open>go_up\<close>, \<open>go_down\<close>, \<open>stop_motor\<close>.\<close>

datatype intent = Up | Down | Hold

text \<open>
  The global variables of the program and the output registers it writes. The floors and
  the direction are \<open>unsigned char\<close>. \<open>issued\<close> is the sequence of calls to the motor
  functions made so far, oldest first: it records the calls themselves, which the registers
  alone do not show.
\<close>

record elevator =
  state :: elev_state
  current_floor :: "8 word"
  called_floor :: "8 word"
  destination :: "8 word"
  dest_direction :: "8 word"
  P1OUT :: "8 word"
  P2OUT :: "8 word"
  TA0CCR1 :: "16 word"
  issued :: "intent list"

subsection \<open>Constants\<close>

text \<open>Port 1 and port 2 bit masks.\<close>

definition SEVENSEG_A0 :: "8 word" where "SEVENSEG_A0 = 0x01"
definition SEVENSEG_A1 :: "8 word" where "SEVENSEG_A1 = 0x02"
definition SEVENSEG_A2 :: "8 word" where "SEVENSEG_A2 = 0x08"
definition TOWER_EN :: "8 word" where "TOWER_EN = 0x10"
definition LIMIT_EN :: "8 word" where "LIMIT_EN = 0x01"
definition ELEV_EN :: "8 word" where "ELEV_EN = 0x08"
definition UPCTL :: "8 word" where "UPCTL = 0x40"
definition DNCTL :: "8 word" where "DNCTL = 0x80"

text \<open>Duty cycles, out of 1000.\<close>

definition UP_DUTY_CYCLE :: "16 word" where "UP_DUTY_CYCLE = 400"
definition DN_DUTY_CYCLE :: "16 word" where "DN_DUTY_CYCLE = 300"

text \<open>Address masks.\<close>

definition TOWER_ADDR_MASK :: "8 word" where "TOWER_ADDR_MASK = 0xE0"
definition ELEV_ADDR_MASK :: "8 word" where "ELEV_ADDR_MASK = 0x30"
definition LIMIT_ADDR_MASK :: "8 word" where "LIMIT_ADDR_MASK = 0x06"

text \<open>On-tower call button addresses.\<close>

definition F1_UP :: "8 word" where "F1_UP = 0x7"
definition F2_DN :: "8 word" where "F2_DN = 0x6"
definition F2_UP :: "8 word" where "F2_UP = 0x5"
definition F3_DN :: "8 word" where "F3_DN = 0x4"
definition F3_UP :: "8 word" where "F3_UP = 0x3"
definition F4_DN :: "8 word" where "F4_DN = 0x2"

text \<open>The character constants \<open>'u'\<close> and \<open>'d'\<close> stored in \<open>dest_direction\<close>.\<close>

definition DIR_UP :: "8 word" where "DIR_UP = 0x75"
definition DIR_DN :: "8 word" where "DIR_DN = 0x64"

subsection \<open>Motor control functions\<close>

definition stop_motor :: "elevator \<Rightarrow> elevator" where
  "stop_motor s =
     s\<lparr>P2OUT := (P2OUT s OR UPCTL) OR DNCTL,
       issued := issued s @ [Hold]\<rparr>"

definition go_up :: "elevator \<Rightarrow> elevator" where
  "go_up s =
     s\<lparr>P2OUT := (P2OUT s OR UPCTL) AND NOT DNCTL,
       TA0CCR1 := UP_DUTY_CYCLE,
       issued := issued s @ [Up]\<rparr>"

definition go_down :: "elevator \<Rightarrow> elevator" where
  "go_down s =
     s\<lparr>P2OUT := (P2OUT s AND NOT UPCTL) OR DNCTL,
       TA0CCR1 := DN_DUTY_CYCLE,
       issued := issued s @ [Down]\<rparr>"

subsection \<open>Seven-segment display\<close>

definition update_display :: "8 word \<Rightarrow> elevator \<Rightarrow> elevator" where
  "update_display floor s =
     (if floor = 1 then
        s\<lparr>P1OUT := ((P1OUT s OR SEVENSEG_A0) AND NOT SEVENSEG_A1) AND NOT SEVENSEG_A2\<rparr>
      else if floor = 2 then
        s\<lparr>P1OUT := ((P1OUT s AND NOT SEVENSEG_A0) OR SEVENSEG_A1) AND NOT SEVENSEG_A2\<rparr>
      else if floor = 3 then
        s\<lparr>P1OUT := ((P1OUT s OR SEVENSEG_A0) OR SEVENSEG_A1) AND NOT SEVENSEG_A2\<rparr>
      else if floor = 4 then
        s\<lparr>P1OUT := ((P1OUT s AND NOT SEVENSEG_A0) AND NOT SEVENSEG_A1) OR SEVENSEG_A2\<rparr>
      else s)"

subsection \<open>Address decoding\<close>

text \<open>
  The three \<open>get_*_addr\<close> functions read an input port; the value read is their argument.
\<close>

definition get_tower_addr :: "8 word \<Rightarrow> 8 word" where
  "get_tower_addr p1in = drop_bit 5 (p1in AND TOWER_ADDR_MASK)"

definition get_elev_addr :: "8 word \<Rightarrow> 8 word" where
  "get_elev_addr p2in = drop_bit 4 (p2in AND ELEV_ADDR_MASK)"

definition get_limit_addr :: "8 word \<Rightarrow> 8 word" where
  "get_limit_addr p2in = drop_bit 1 (p2in AND LIMIT_ADDR_MASK)"

subsection \<open>Control handlers\<close>

text \<open>
  \<open>handle_tower_button\<close>: a \<open>switch\<close> over the six button addresses, each case guarded by
  \<open>state == 'x'\<close>. The cases are written out as in the source: the first floor only ever
  sends the car down, the fourth floor only up, the two middle floors compare.
  An address with no case (0 or 1) falls through the \<open>switch\<close>.
\<close>

definition handle_tower_button :: "8 word \<Rightarrow> elevator \<Rightarrow> elevator" where
  "handle_tower_button addr s =
     (if addr = F1_UP then
        (if state s = Idle then
           (let s1 = s\<lparr>called_floor := 1, dest_direction := DIR_UP\<rparr> in
            if current_floor s1 \<noteq> 1 then (go_down s1)\<lparr>state := MovingToCallDown\<rparr>
            else s1\<lparr>state := AwaitingSelection\<rparr>)
         else s)
      else if addr = F2_DN then
        (if state s = Idle then
           (let s1 = s\<lparr>called_floor := 2, dest_direction := DIR_DN\<rparr> in
            if current_floor s1 \<noteq> 2 then
              (if current_floor s1 > 2 then (go_down s1)\<lparr>state := MovingToCallDown\<rparr>
               else (go_up s1)\<lparr>state := MovingToCallUp\<rparr>)
            else s1\<lparr>state := AwaitingSelection\<rparr>)
         else s)
      else if addr = F2_UP then
        (if state s = Idle then
           (let s1 = s\<lparr>called_floor := 2, dest_direction := DIR_UP\<rparr> in
            if current_floor s1 \<noteq> 2 then
              (if current_floor s1 > 2 then (go_down s1)\<lparr>state := MovingToCallDown\<rparr>
               else (go_up s1)\<lparr>state := MovingToCallUp\<rparr>)
            else s1\<lparr>state := AwaitingSelection\<rparr>)
         else s)
      else if addr = F3_DN then
        (if state s = Idle then
           (let s1 = s\<lparr>called_floor := 3, dest_direction := DIR_DN\<rparr> in
            if current_floor s1 \<noteq> 3 then
              (if current_floor s1 > 3 then (go_down s1)\<lparr>state := MovingToCallDown\<rparr>
               else (go_up s1)\<lparr>state := MovingToCallUp\<rparr>)
            else s1\<lparr>state := AwaitingSelection\<rparr>)
         else s)
      else if addr = F3_UP then
        (if state s = Idle then
           (let s1 = s\<lparr>called_floor := 3, dest_direction := DIR_UP\<rparr> in
            if current_floor s1 \<noteq> 3 then
              (if current_floor s1 > 3 then (go_down s1)\<lparr>state := MovingToCallDown\<rparr>
               else (go_up s1)\<lparr>state := MovingToCallUp\<rparr>)
            else s1\<lparr>state := AwaitingSelection\<rparr>)
         else s)
      else if addr = F4_DN then
        (if state s = Idle then
           (let s1 = s\<lparr>called_floor := 4, dest_direction := DIR_DN\<rparr> in
            if current_floor s1 \<noteq> 4 then (go_up s1)\<lparr>state := MovingToCallUp\<rparr>
            else s1\<lparr>state := AwaitingSelection\<rparr>)
         else s)
      else s)"

text \<open>
  \<open>handle_elev_button\<close>: the assignment to \<open>destination\<close> comes first, outside the test of
  the state. \<open>addr + 1\<close> is stored into an \<open>unsigned char\<close>, so it wraps at 256.
\<close>

definition handle_elev_button :: "8 word \<Rightarrow> elevator \<Rightarrow> elevator" where
  "handle_elev_button addr s =
     (let s1 = s\<lparr>destination := addr + 1\<rparr> in
      if state s1 = AwaitingSelection then
        (if destination s1 = current_floor s1 then s1\<lparr>state := AwaitingSelection\<rparr>
         else if dest_direction s1 = DIR_UP \<and> destination s1 > current_floor s1 then
           s1\<lparr>state := MovingToDestinationUp\<rparr>
         else if dest_direction s1 = DIR_DN \<and> destination s1 < current_floor s1 then
           s1\<lparr>state := MovingToDestinationDown\<rparr>
         else s1)
      else s1)"

definition handle_limit_switch :: "8 word \<Rightarrow> elevator \<Rightarrow> elevator" where
  "handle_limit_switch addr s =
     (let s1 = s\<lparr>current_floor := addr + 1\<rparr>;
          s2 = (if current_floor s1 = 1 \<or> current_floor s1 = 4 then stop_motor s1 else s1)
      in update_display (current_floor s2) s2)"

subsection \<open>The interrupt handler\<close>

text \<open>The \<open>switch (state)\<close> that ends \<open>WDT_interval_handler\<close>.\<close>

definition handle_state :: "elevator \<Rightarrow> elevator" where
  "handle_state s =
     (case state s of
        Initializing \<Rightarrow>
          (if current_floor s = 1 then (stop_motor s)\<lparr>state := Idle\<rparr> else go_down s)
      | Idle \<Rightarrow> stop_motor s
      | MovingToCallUp \<Rightarrow>
          (if called_floor s = current_floor s then (stop_motor s)\<lparr>state := AwaitingSelection\<rparr>
           else go_up s)
      | MovingToCallDown \<Rightarrow>
          (if called_floor s = current_floor s then (stop_motor s)\<lparr>state := AwaitingSelection\<rparr>
           else go_down s)
      | AwaitingSelection \<Rightarrow> stop_motor s
      | MovingToDestinationUp \<Rightarrow>
          (if destination s = current_floor s then (stop_motor s)\<lparr>state := Idle\<rparr>
           else go_up s)
      | MovingToDestinationDown \<Rightarrow>
          (if destination s = current_floor s then (stop_motor s)\<lparr>state := Idle\<rparr>
           else go_down s))"

text \<open>
  One run of the interrupt handler, one tick. \<open>p1in\<close> and \<open>p2in\<close> are the values of the input
  ports \<open>P1IN\<close> and \<open>P2IN\<close> during the tick. The sensors are polled in the order of the
  source: limit switch, in-elevator button, on-tower button; then the state is handled.
\<close>

definition WDT_interval_handler :: "8 word \<Rightarrow> 8 word \<Rightarrow> elevator \<Rightarrow> elevator" where
  "WDT_interval_handler p1in p2in s =
     (let s1 = (if p2in AND LIMIT_EN \<noteq> 0 then handle_limit_switch (get_limit_addr p2in) s
                else s);
          s2 = (if p2in AND ELEV_EN \<noteq> 0 then handle_elev_button (get_elev_addr p2in) s1
                else s1);
          s3 = (if p1in AND TOWER_EN \<noteq> 0 then handle_tower_button (get_tower_addr p1in) s2
                else s2)
      in handle_state s3)"

text \<open>A sequence of ticks, given the port values of each: the pair is \<open>(P1IN, P2IN)\<close>.\<close>

fun run :: "(8 word \<times> 8 word) list \<Rightarrow> elevator \<Rightarrow> elevator" where
  "run [] s = s"
| "run (io # ios) s = run ios (WDT_interval_handler (fst io) (snd io) s)"

subsection \<open>Initial state and observers\<close>

text \<open>
  The state after \<open>main\<close> has run the initialisation functions: the globals as initialised
  (\<open>state = 'i'\<close>, \<open>current_floor = 0\<close>, the other three zero as C statics),
  \<open>TA0CCR1 = 500\<close> from \<open>init_motor_control\<close>, no motor function called yet. The output
  ports hold whatever they held: they are parameters.
\<close>

definition power_on :: "8 word \<Rightarrow> 8 word \<Rightarrow> elevator" where
  "power_on p1out p2out =
     \<lparr>state = Initializing, current_floor = 0, called_floor = 0, destination = 0,
      dest_direction = 0, P1OUT = p1out, P2OUT = p2out, TA0CCR1 = 500, issued = []\<rparr>"

text \<open>
  The motor intent in effect, read back from the two direction lines of port 2 as the motor
  functions set them: both high is stop, \<open>UPCTL\<close> alone is up, \<open>DNCTL\<close> alone is down.
\<close>

definition motor_intent :: "elevator \<Rightarrow> intent option" where
  "motor_intent s =
     (if P2OUT s AND UPCTL \<noteq> 0 \<and> P2OUT s AND DNCTL \<noteq> 0 then Some Hold
      else if P2OUT s AND UPCTL \<noteq> 0 then Some Up
      else if P2OUT s AND DNCTL \<noteq> 0 then Some Down
      else None)"

text \<open>
  The events that a tick sees on its input ports, as the three \<open>if\<close>s of the interrupt
  handler test them: the floor that the limit switches report, the floor selected in the
  car, and the address of the tower button.
\<close>

definition limit_event :: "8 word \<Rightarrow> 8 word option" where
  "limit_event p2in =
     (if p2in AND LIMIT_EN \<noteq> 0 then Some (get_limit_addr p2in + 1) else None)"

definition elev_event :: "8 word \<Rightarrow> 8 word option" where
  "elev_event p2in =
     (if p2in AND ELEV_EN \<noteq> 0 then Some (get_elev_addr p2in + 1) else None)"

definition tower_event :: "8 word \<Rightarrow> 8 word option" where
  "tower_event p1in =
     (if p1in AND TOWER_EN \<noteq> 0 then Some (get_tower_addr p1in) else None)"

text \<open>
  The first half of the interrupt handler: the machine after the three polls, as the
  \<open>switch (state)\<close> finds it.
\<close>

definition poll :: "8 word \<Rightarrow> 8 word \<Rightarrow> elevator \<Rightarrow> elevator" where
  "poll p1in p2in s =
     (let s1 = (if p2in AND LIMIT_EN \<noteq> 0 then handle_limit_switch (get_limit_addr p2in) s
                else s);
          s2 = (if p2in AND ELEV_EN \<noteq> 0 then handle_elev_button (get_elev_addr p2in) s1
                else s1)
      in if p1in AND TOWER_EN \<noteq> 0 then handle_tower_button (get_tower_addr p1in) s2
         else s2)"

text \<open>
  The motor function that \<open>handle_state\<close> calls on the branch that leaves the machine in
  each state.
\<close>

fun state_intent :: "elev_state \<Rightarrow> intent" where
  "state_intent Initializing = Down"
| "state_intent Idle = Hold"
| "state_intent MovingToCallUp = Up"
| "state_intent MovingToCallDown = Down"
| "state_intent AwaitingSelection = Hold"
| "state_intent MovingToDestinationUp = Up"
| "state_intent MovingToDestinationDown = Down"

text \<open>
  The floor and direction that each tower button stands for, from the six \<open>case\<close>s of
  \<open>handle_tower_button\<close> and the comments of the address table.
\<close>

definition tower_call :: "8 word \<Rightarrow> (8 word \<times> 8 word) option" where
  "tower_call addr =
     (if addr = F1_UP then Some (1, DIR_UP)
      else if addr = F2_DN then Some (2, DIR_DN)
      else if addr = F2_UP then Some (2, DIR_UP)
      else if addr = F3_DN then Some (3, DIR_DN)
      else if addr = F3_UP then Some (3, DIR_UP)
      else if addr = F4_DN then Some (4, DIR_DN)
      else None)"

text \<open>
  The pending call and the pending destination as optional values. The program keeps no
  flag for them: a call is pending in the states that serve it (on the way to the floor of
  the call and while waiting there for the selection), where it is the pair of
  \<open>called_floor\<close> and \<open>dest_direction\<close>, and a destination is pending in the two states
  that carry the passenger, where it is \<open>destination\<close>. In every other state the three
  variables hold values that the program does not read before it writes them again
  (\<open>cleared_variables_unread\<close>).
\<close>

definition PendingCall :: "elevator \<Rightarrow> (8 word \<times> 8 word) option" where
  "PendingCall s =
     (if state s = MovingToCallUp \<or> state s = MovingToCallDown \<or> state s = AwaitingSelection
      then Some (called_floor s, dest_direction s)
      else None)"

definition PendingDestination :: "elevator \<Rightarrow> 8 word option" where
  "PendingDestination s =
     (if state s = MovingToDestinationUp \<or> state s = MovingToDestinationDown
      then Some (destination s)
      else None)"

text \<open>
  Two machines that agree on everything but the variables of a call or destination that
  is not pending.
\<close>

definition same_machine :: "elevator \<Rightarrow> elevator \<Rightarrow> bool" where
  "same_machine s t \<longleftrightarrow>
     state s = state t \<and> current_floor s = current_floor t \<and>
     PendingCall s = PendingCall t \<and> PendingDestination s = PendingDestination t \<and>
     P1OUT s = P1OUT t \<and> P2OUT s = P2OUT t \<and> TA0CCR1 s = TA0CCR1 t \<and> issued s = issued t"

text \<open>The four moving states, the floor each is heading for, and the state on arrival.\<close>

fun moving :: "elev_state \<Rightarrow> bool" where
  "moving MovingToCallUp = True"
| "moving MovingToCallDown = True"
| "moving MovingToDestinationUp = True"
| "moving MovingToDestinationDown = True"
| "moving _ = False"

fun with_passenger :: "elev_state \<Rightarrow> bool" where
  "with_passenger MovingToDestinationUp = True"
| "with_passenger MovingToDestinationDown = True"
| "with_passenger _ = False"

definition target :: "elevator \<Rightarrow> 8 word" where
  "target s = (if with_passenger (state s) then destination s else called_floor s)"

fun arrival :: "elev_state \<Rightarrow> elev_state" where
  "arrival MovingToCallUp = AwaitingSelection"
| "arrival MovingToCallDown = AwaitingSelection"
| "arrival MovingToDestinationUp = Idle"
| "arrival MovingToDestinationDown = Idle"
| "arrival st = st"

text \<open>
  Floor numbers as naturals: the floor \<open>k\<close> steps from \<open>c\<close> on the way to \<open>t\<close>, and the
  distance between two floors.
\<close>

definition toward :: "nat \<Rightarrow> nat \<Rightarrow> nat \<Rightarrow> nat" where
  "toward c t k = (if c \<le> t then c + k else c - k)"

definition floor_distance :: "nat \<Rightarrow> nat \<Rightarrow> nat" where
  "floor_distance c t = (if c \<le> t then t - c else c - t)"

text \<open>A tick with no event on any of the three sources.\<close>

definition no_events :: "8 word \<times> 8 word \<Rightarrow> bool" where
  "no_events io \<longleftrightarrow>
     tower_event (fst io) = None \<and> elev_event (snd io) = None \<and> limit_event (snd io) = None"

section \<open>Basic facts\<close>

lemma UPCTL_test: "(p AND UPCTL \<noteq> 0) = bit p 6"
  using and_exp_eq_0_iff_not_bit [of p 6] by (simp add: UPCTL_def)

lemma DNCTL_test: "(p AND DNCTL \<noteq> 0) = bit p 7"
  using and_exp_eq_0_iff_not_bit [of p 7] by (simp add: DNCTL_def)

lemma UPCTL_exp: "UPCTL = 2 ^ 6"
  by (simp add: UPCTL_def)

lemma DNCTL_exp: "DNCTL = 2 ^ 7"
  by (simp add: DNCTL_def)

lemma ctl_bits: "bit UPCTL 6" "\<not> bit UPCTL 7" "bit DNCTL 7" "\<not> bit DNCTL 6"
  by (simp_all add: UPCTL_exp DNCTL_exp bit_exp_iff del: power_numeral)

lemma stop_motor_fields [simp]:
  "state (stop_motor s) = state s"
  "current_floor (stop_motor s) = current_floor s"
  "called_floor (stop_motor s) = called_floor s"
  "destination (stop_motor s) = destination s"
  "dest_direction (stop_motor s) = dest_direction s"
  "issued (stop_motor s) = issued s @ [Hold]"
  by (simp_all add: stop_motor_def)

lemma go_up_fields [simp]:
  "state (go_up s) = state s"
  "current_floor (go_up s) = current_floor s"
  "called_floor (go_up s) = called_floor s"
  "destination (go_up s) = destination s"
  "dest_direction (go_up s) = dest_direction s"
  "issued (go_up s) = issued s @ [Up]"
  by (simp_all add: go_up_def)

lemma go_down_fields [simp]:
  "state (go_down s) = state s"
  "current_floor (go_down s) = current_floor s"
  "called_floor (go_down s) = called_floor s"
  "destination (go_down s) = destination s"
  "dest_direction (go_down s) = dest_direction s"
  "issued (go_down s) = issued s @ [Down]"
  by (simp_all add: go_down_def)

lemma update_display_fields [simp]:
  "state (update_display f s) = state s"
  "current_floor (update_display f s) = current_floor s"
  "called_floor (update_display f s) = called_floor s"
  "destination (update_display f s) = destination s"
  "dest_direction (update_display f s) = dest_direction s"
  "issued (update_display f s) = issued s"
  "P2OUT (update_display f s) = P2OUT s"
  by (simp_all add: update_display_def)

lemma motor_intent_stop_motor [simp]: "motor_intent (stop_motor s) = Some Hold"
  unfolding motor_intent_def UPCTL_test DNCTL_test
  by (simp add: stop_motor_def bit_or_iff ctl_bits)

lemma motor_intent_go_up [simp]: "motor_intent (go_up s) = Some Up"
  unfolding motor_intent_def UPCTL_test DNCTL_test
  by (simp add: go_up_def bit_or_iff bit_and_iff bit_not_iff ctl_bits)

lemma motor_intent_go_down [simp]: "motor_intent (go_down s) = Some Down"
  unfolding motor_intent_def UPCTL_test DNCTL_test
  by (simp add: go_down_def bit_or_iff bit_and_iff bit_not_iff ctl_bits)

lemma motor_intent_state_update [simp]:
  "motor_intent (s\<lparr>state := x\<rparr>) = motor_intent s"
  by (simp add: motor_intent_def)

lemma motor_intent_update_display [simp]:
  "motor_intent (update_display f s) = motor_intent s"
  by (simp add: motor_intent_def)

lemma WDT_poll: "WDT_interval_handler p1in p2in s = handle_state (poll p1in p2in s)"
  by (simp add: WDT_interval_handler_def poll_def Let_def)

text \<open>What the switch on the state leaves behind.\<close>

lemma handle_state_intent:
  "motor_intent (handle_state s) = Some (state_intent (state (handle_state s)))"
  by (cases "state s") (simp_all add: handle_state_def)

lemma handle_state_issued:
  "issued (handle_state s) = issued s @ [state_intent (state (handle_state s))]"
  by (cases "state s") (simp_all add: handle_state_def)

lemma handle_state_frame [simp]:
  "current_floor (handle_state s) = current_floor s"
  "called_floor (handle_state s) = called_floor s"
  "destination (handle_state s) = destination s"
  "dest_direction (handle_state s) = dest_direction s"
  by (cases "state s"; simp add: handle_state_def)+

lemma handle_limit_switch_fields [simp]:
  "state (handle_limit_switch a s) = state s"
  "current_floor (handle_limit_switch a s) = a + 1"
  "called_floor (handle_limit_switch a s) = called_floor s"
  "destination (handle_limit_switch a s) = destination s"
  "dest_direction (handle_limit_switch a s) = dest_direction s"
  by (simp_all add: handle_limit_switch_def Let_def)

lemma handle_elev_button_fields [simp]:
  "current_floor (handle_elev_button a s) = current_floor s"
  "called_floor (handle_elev_button a s) = called_floor s"
  "destination (handle_elev_button a s) = a + 1"
  "dest_direction (handle_elev_button a s) = dest_direction s"
  "issued (handle_elev_button a s) = issued s"
  by (simp_all add: handle_elev_button_def Let_def)

lemma handle_elev_button_state:
  "state s \<noteq> AwaitingSelection \<Longrightarrow> state (handle_elev_button a s) = state s"
  by (simp add: handle_elev_button_def Let_def)

lemma handle_tower_button_busy:
  "state s \<noteq> Idle \<Longrightarrow> handle_tower_button a s = s"
  by (simp add: handle_tower_button_def)

lemma handle_tower_button_frame [simp]:
  "current_floor (handle_tower_button a s) = current_floor s"
  "destination (handle_tower_button a s) = destination s"
  by (simp_all add: handle_tower_button_def Let_def)

subsection \<open>The polls, the handlers and executions\<close>

lemma poll_state_with_passenger:
  "with_passenger (state s) \<Longrightarrow> state (poll p1in p2in s) = state s"
  by (cases "state s")
     (simp_all add: poll_def Let_def handle_elev_button_state handle_tower_button_busy)

lemma poll_call_frame:
  "state s \<noteq> Idle \<Longrightarrow> called_floor (poll p1in p2in s) = called_floor s \<and>
     dest_direction (poll p1in p2in s) = dest_direction s"
  by (cases "state s = AwaitingSelection")
     (auto simp add: poll_def Let_def handle_elev_button_state handle_tower_button_busy
        handle_elev_button_def)

lemma handle_elev_button_not_Idle:
  "state s \<noteq> Idle \<Longrightarrow> state (handle_elev_button a s) \<noteq> Idle"
  by (simp add: handle_elev_button_def Let_def)

lemma poll_tower_busy:
  assumes "state s \<noteq> Idle"
  shows "poll p1in p2in s = poll 0 p2in s"
proof -
  let ?s1 = "if p2in AND LIMIT_EN \<noteq> 0 then handle_limit_switch (get_limit_addr p2in) s else s"
  let ?s2 = "if p2in AND ELEV_EN \<noteq> 0 then handle_elev_button (get_elev_addr p2in) ?s1 else ?s1"
  have "state ?s1 \<noteq> Idle" using assms by simp
  then have "state ?s2 \<noteq> Idle" by (simp add: handle_elev_button_not_Idle)
  then have "handle_tower_button (get_tower_addr p1in) ?s2 = ?s2"
    by (rule handle_tower_button_busy)
  moreover have "poll p1in p2in s =
      (if p1in AND TOWER_EN \<noteq> 0 then handle_tower_button (get_tower_addr p1in) ?s2 else ?s2)"
    unfolding poll_def Let_def by (rule refl)
  moreover have "poll 0 p2in s = ?s2"
    unfolding poll_def Let_def by simp
  ultimately show ?thesis by presburger
qed

lemma poll_limit_floor:
  "limit_event p2in = Some f \<Longrightarrow> current_floor (poll p1in p2in s) = f"
  by (auto simp add: limit_event_def poll_def Let_def split: if_splits)

lemma poll_elev_destination:
  "elev_event p2in = Some f \<Longrightarrow> destination (poll p1in p2in s) = f"
  by (auto simp add: elev_event_def poll_def Let_def split: if_splits)

lemma poll_no_elev_destination:
  "elev_event p2in = None \<Longrightarrow> destination (poll p1in p2in s) = destination s"
  by (auto simp add: elev_event_def poll_def Let_def split: if_splits)

lemma poll_no_limit_floor:
  "limit_event p2in = None \<Longrightarrow> current_floor (poll p1in p2in s) = current_floor s"
  by (auto simp add: limit_event_def poll_def Let_def split: if_splits)

lemma handle_limit_switch_stale:
  "handle_limit_switch a (s\<lparr>current_floor := c\<rparr>) = handle_limit_switch a s"
  by (simp add: handle_limit_switch_def Let_def stop_motor_def update_display_def)

lemma poll_stale:
  "limit_event p2in = Some f \<Longrightarrow> poll p1in p2in (s\<lparr>current_floor := c\<rparr>) = poll p1in p2in s"
  by (simp add: limit_event_def poll_def handle_limit_switch_stale split: if_splits)

lemma tower_call_cases:
  assumes "tower_call a = Some (f, d)"
  shows "a = F1_UP \<and> f = 1 \<and> d = DIR_UP \<or> a = F2_DN \<and> f = 2 \<and> d = DIR_DN \<or>
         a = F2_UP \<and> f = 2 \<and> d = DIR_UP \<or> a = F3_DN \<and> f = 3 \<and> d = DIR_DN \<or>
         a = F3_UP \<and> f = 3 \<and> d = DIR_UP \<or> a = F4_DN \<and> f = 4 \<and> d = DIR_DN"
  using assms by (simp add: tower_call_def split: if_splits)

lemma tower_addr_distinct:
  "F1_UP \<noteq> F2_DN" "F1_UP \<noteq> F2_UP" "F1_UP \<noteq> F3_DN" "F1_UP \<noteq> F3_UP" "F1_UP \<noteq> F4_DN"
  "F2_DN \<noteq> F1_UP" "F2_DN \<noteq> F2_UP" "F2_DN \<noteq> F3_DN" "F2_DN \<noteq> F3_UP" "F2_DN \<noteq> F4_DN"
  "F2_UP \<noteq> F1_UP" "F2_UP \<noteq> F2_DN" "F2_UP \<noteq> F3_DN" "F2_UP \<noteq> F3_UP" "F2_UP \<noteq> F4_DN"
  "F3_DN \<noteq> F1_UP" "F3_DN \<noteq> F2_DN" "F3_DN \<noteq> F2_UP" "F3_DN \<noteq> F3_UP" "F3_DN \<noteq> F4_DN"
  "F3_UP \<noteq> F1_UP" "F3_UP \<noteq> F2_DN" "F3_UP \<noteq> F2_UP" "F3_UP \<noteq> F3_DN" "F3_UP \<noteq> F4_DN"
  "F4_DN \<noteq> F1_UP" "F4_DN \<noteq> F2_DN" "F4_DN \<noteq> F2_UP" "F4_DN \<noteq> F3_DN" "F4_DN \<noteq> F3_UP"
  by (simp_all add: F1_UP_def F2_DN_def F2_UP_def F3_DN_def F3_UP_def F4_DN_def)

lemma tower_accept:
  assumes "state s = Idle" and "tower_call a = Some (f, d)"
  shows "called_floor (handle_tower_button a s) = f"
    and "dest_direction (handle_tower_button a s) = d"
    and "current_floor s = f \<Longrightarrow> state (handle_tower_button a s) = AwaitingSelection"
    and "1 \<le> current_floor s \<Longrightarrow> current_floor s \<le> 4 \<Longrightarrow> current_floor s < f \<Longrightarrow>
           state (handle_tower_button a s) = MovingToCallUp"
    and "1 \<le> current_floor s \<Longrightarrow> current_floor s \<le> 4 \<Longrightarrow> f < current_floor s \<Longrightarrow>
           state (handle_tower_button a s) = MovingToCallDown"
  using tower_call_cases [OF assms(2)] assms(1)
  by (auto simp add: handle_tower_button_def Let_def tower_addr_distinct)

lemma poll_no_events: "no_events (p1in, p2in) \<Longrightarrow> poll p1in p2in s = s"
  by (simp add: no_events_def poll_def limit_event_def elev_event_def tower_event_def
      split: if_splits)

lemma idle_tick:
  assumes "state s = Idle \<or> state s = AwaitingSelection" and "no_events io"
  shows "state (WDT_interval_handler (fst io) (snd io) s) = state s"
    and "issued (WDT_interval_handler (fst io) (snd io) s) = issued s @ [Hold]"
    and "motor_intent (WDT_interval_handler (fst io) (snd io) s) = Some Hold"
    and "current_floor (WDT_interval_handler (fst io) (snd io) s) = current_floor s"
    and "called_floor (WDT_interval_handler (fst io) (snd io) s) = called_floor s"
    and "dest_direction (WDT_interval_handler (fst io) (snd io) s) = dest_direction s"
    and "destination (WDT_interval_handler (fst io) (snd io) s) = destination s"
  using assms poll_no_events [of "fst io" "snd io" s]
  by (auto simp add: WDT_poll handle_state_def)

lemma run_append: "run (xs @ ys) s = run ys (run xs s)"
  by (induction xs arbitrary: s) simp_all

lemma poll_state_moving:
  "moving (state s) \<Longrightarrow> state (poll p1in p2in s) = state s"
  by (cases "state s")
     (simp_all add: poll_def Let_def handle_elev_button_state handle_tower_button_busy)

lemma poll_target_moving:
  assumes "moving (state s)" and "with_passenger (state s) \<longrightarrow> elev_event p2in = None"
  shows "target (poll p1in p2in s) = target s"
proof -
  have st: "state (poll p1in p2in s) = state s"
    using assms(1) by (rule poll_state_moving)
  have "state s \<noteq> Idle" using assms(1) by auto
  then have cf: "called_floor (poll p1in p2in s) = called_floor s"
    using poll_call_frame by blast
  show ?thesis
    using assms(2) st cf by (auto simp add: target_def poll_no_elev_destination)
qed

lemma tick_moving:
  assumes "moving (state s)" and "with_passenger (state s) \<longrightarrow> elev_event p2in = None"
    and "limit_event p2in = Some f"
  shows "current_floor (WDT_interval_handler p1in p2in s) = f"
    and "f \<noteq> target s \<Longrightarrow> state (WDT_interval_handler p1in p2in s) = state s"
    and "f \<noteq> target s \<Longrightarrow> target (WDT_interval_handler p1in p2in s) = target s"
    and "f = target s \<Longrightarrow> state (WDT_interval_handler p1in p2in s) = arrival (state s)"
proof -
  let ?p = "poll p1in p2in s"
  have st: "state ?p = state s" using assms(1) by (rule poll_state_moving)
  have tg: "target ?p = target s" using assms(1,2) by (rule poll_target_moving)
  have cf: "current_floor ?p = f" using assms(3) by (rule poll_limit_floor)
  show "current_floor (WDT_interval_handler p1in p2in s) = f"
    using cf by (simp add: WDT_poll)
  show "state (WDT_interval_handler p1in p2in s) = state s" if "f \<noteq> target s"
    using that assms(1) st tg cf
    by (cases "state s") (auto simp add: WDT_poll handle_state_def target_def)
  show "target (WDT_interval_handler p1in p2in s) = target s" if "f \<noteq> target s"
    using that assms(1) st tg cf
    by (cases "state s") (auto simp add: WDT_poll handle_state_def target_def)
  show "state (WDT_interval_handler p1in p2in s) = arrival (state s)" if "f = target s"
    using that assms(1) st tg cf
    by (cases "state s") (auto simp add: WDT_poll handle_state_def target_def)
qed

text \<open>As long as the floors reported differ from the target, the car keeps moving.\<close>

lemma run_not_arrived:
  assumes "moving (state s)"
    and "with_passenger (state s) \<longrightarrow> (\<forall>io \<in> set ios. elev_event (snd io) = None)"
    and "\<forall>io \<in> set ios. \<exists>f. limit_event (snd io) = Some f \<and> f \<noteq> target s"
  shows "state (run ios s) = state s \<and> target (run ios s) = target s"
  using assms
proof (induction ios arbitrary: s)
  case Nil
  then show ?case by simp
next
  case (Cons io ios)
  let ?s1 = "WDT_interval_handler (fst io) (snd io) s"
  obtain f where f: "limit_event (snd io) = Some f" "f \<noteq> target s"
    using Cons.prems(3) by auto
  have e: "with_passenger (state s) \<longrightarrow> elev_event (snd io) = None"
    using Cons.prems(2) by simp
  have st: "state ?s1 = state s" and tg: "target ?s1 = target s"
    using tick_moving(2,3) [OF Cons.prems(1) e f(1)] f(2) by simp_all
  have "state (run ios ?s1) = state ?s1 \<and> target (run ios ?s1) = target ?s1"
  proof (rule Cons.IH)
    show "moving (state ?s1)" using st Cons.prems(1) by simp
    show "with_passenger (state ?s1) \<longrightarrow> (\<forall>io \<in> set ios. elev_event (snd io) = None)"
      using st Cons.prems(2) by simp
    show "\<forall>io \<in> set ios. \<exists>f. limit_event (snd io) = Some f \<and> f \<noteq> target ?s1"
      using tg Cons.prems(3) by simp
  qed
  then show ?case using st tg by simp
qed

lemma toward_eq_target:
  "k \<le> floor_distance c t \<Longrightarrow> toward c t k = t \<longleftrightarrow> k = floor_distance c t"
  by (auto simp add: toward_def floor_distance_def)

lemma get_limit_addr_le: "unat (get_limit_addr p) \<le> 3"
proof -
  have "p AND 6 \<le> 6" by (rule word_and_le1)
  then have "unat (p AND 6) \<le> 6" by (simp add: word_le_nat_alt)
  moreover have "unat (drop_bit 1 (p AND 6)) = unat (p AND 6) div 2"
    by (simp add: drop_bit_eq_div unat_div)
  ultimately have "unat (drop_bit 1 (p AND 6)) \<le> 3"
    by simp
  then show ?thesis
    by (simp add: get_limit_addr_def LIMIT_ADDR_MASK_def)
qed

lemma limit_event_range:
  assumes "limit_event p = Some f"
  shows "1 \<le> f \<and> f \<le> 4"
proof -
  have f: "f = get_limit_addr p + 1"
    using assms by (simp add: limit_event_def split: if_splits)
  have "unat (get_limit_addr p + 1) = unat (get_limit_addr p) + 1"
    using get_limit_addr_le [of p] by (simp add: unat_word_ariths)
  then have "1 \<le> unat f \<and> unat f \<le> 4"
    using get_limit_addr_le [of p] f by simp
  then show ?thesis
    by (simp add: word_le_nat_alt)
qed

lemma poll_state_Initializing:
  "state (poll p1in p2in s) = Initializing \<longleftrightarrow> state s = Initializing"
proof (cases "state s = Initializing")
  case True
  then show ?thesis
    by (simp add: poll_def Let_def handle_elev_button_state handle_tower_button_busy)
next
  case False
  let ?s1 = "if p2in AND LIMIT_EN \<noteq> 0 then handle_limit_switch (get_limit_addr p2in) s else s"
  let ?s2 = "if p2in AND ELEV_EN \<noteq> 0 then handle_elev_button (get_elev_addr p2in) ?s1 else ?s1"
  have 1: "state ?s1 \<noteq> Initializing" using False by simp
  have 2: "state ?s2 \<noteq> Initializing"
    using 1 by (auto simp add: handle_elev_button_def Let_def)
  have "state (handle_tower_button a ?s2) \<noteq> Initializing" for a
    using 2 by (auto simp add: handle_tower_button_def Let_def)
  then have "state (poll p1in p2in s) \<noteq> Initializing"
    using 2 by (simp add: poll_def Let_def)
  then show ?thesis using False by simp
qed

lemma poll_floor_cases:
  "current_floor (poll p1in p2in s) = current_floor s \<or>
   limit_event p2in = Some (current_floor (poll p1in p2in s))"
  by (cases "limit_event p2in") (simp_all add: poll_no_limit_floor poll_limit_floor)

text \<open>
  Once the machine has left Initializing, the current floor is one of the four floors: at
  the end of every tick, and at the point of the tick where the handlers have run.
\<close>

lemma poll_floor_in_range:
  assumes "state s \<noteq> Initializing \<longrightarrow> 1 \<le> current_floor s \<and> current_floor s \<le> 4"
  shows "state (poll p1in p2in s) \<noteq> Initializing \<longrightarrow>
           1 \<le> current_floor (poll p1in p2in s) \<and> current_floor (poll p1in p2in s) \<le> 4"
  using assms poll_floor_cases [of p1in p2in s] limit_event_range [of p2in]
  by (auto simp add: poll_state_Initializing)

lemma tick_floor_in_range:
  assumes "state s \<noteq> Initializing \<longrightarrow> 1 \<le> current_floor s \<and> current_floor s \<le> 4"
  shows "state (WDT_interval_handler p1in p2in s) \<noteq> Initializing \<longrightarrow>
           1 \<le> current_floor (WDT_interval_handler p1in p2in s) \<and>
           current_floor (WDT_interval_handler p1in p2in s) \<le> 4"
proof (cases "state (poll p1in p2in s) = Initializing")
  case True
  then show ?thesis by (simp add: WDT_poll handle_state_def)
next
  case False
  then show ?thesis using poll_floor_in_range [OF assms, of p1in p2in] by (simp add: WDT_poll)
qed

lemma run_floor_in_range:
  assumes "state s \<noteq> Initializing \<longrightarrow> 1 \<le> current_floor s \<and> current_floor s \<le> 4"
  shows "state (run ios s) \<noteq> Initializing \<longrightarrow>
           1 \<le> current_floor (run ios s) \<and> current_floor (run ios s) \<le> 4"
  using assms
proof (induction ios arbitrary: s)
  case Nil
  then show ?case by simp
next
  case (Cons io ios)
  show ?case
    using Cons.IH [OF tick_floor_in_range [OF Cons.prems, of "fst io" "snd io"]] by simp
qed

text \<open>
  In every execution from power-on, whenever the tower handler finds the machine Idle, the
  current floor is one of the four floors.
\<close>

lemma idle_floor_in_range:
  assumes "state (poll 0 p2in (run ios (power_on a b))) = Idle"
  shows "1 \<le> current_floor (poll 0 p2in (run ios (power_on a b))) \<and>
         current_floor (poll 0 p2in (run ios (power_on a b))) \<le> 4"
proof -
  have "state (run ios (power_on a b)) \<noteq> Initializing \<longrightarrow>
      1 \<le> current_floor (run ios (power_on a b)) \<and> current_floor (run ios (power_on a b)) \<le> 4"
    by (rule run_floor_in_range) (simp add: power_on_def)
  from poll_floor_in_range [OF this] assms show ?thesis by simp
qed

text \<open>
  At the end of every tick, a machine in a moving state is not at its target floor: the
  switch on the state has just compared the two.
\<close>

lemma tick_moving_not_arrived:
  "moving (state (WDT_interval_handler p1in p2in s)) \<Longrightarrow>
   current_floor (WDT_interval_handler p1in p2in s) \<noteq> target (WDT_interval_handler p1in p2in s)"
  unfolding WDT_poll
  by (cases "state (poll p1in p2in s)") (auto simp add: handle_state_def target_def split: if_splits)

lemma run_moving_not_arrived:
  "moving (state (run ios (power_on a b))) \<Longrightarrow>
   current_floor (run ios (power_on a b)) \<noteq> target (run ios (power_on a b))"
proof (cases ios rule: rev_cases)
  case Nil
  then show "moving (state (run ios (power_on a b))) \<Longrightarrow> ?thesis"
    by (simp add: power_on_def)
next
  case (snoc pre io)
  then show "moving (state (run ios (power_on a b))) \<Longrightarrow> ?thesis"
    using tick_moving_not_arrived [of "fst io" "snd io" "run pre (power_on a b)"]
    by (simp add: run_append)
qed

subsection \<open>Variables of a call or destination that is not pending\<close>

lemma same_machine_refl: "same_machine s s"
  by (simp add: same_machine_def)

lemma same_machine_iff:
  "same_machine s t \<longleftrightarrow>
     state s = state t \<and> current_floor s = current_floor t \<and>
     P1OUT s = P1OUT t \<and> P2OUT s = P2OUT t \<and> TA0CCR1 s = TA0CCR1 t \<and> issued s = issued t \<and>
     (state t = MovingToCallUp \<or> state t = MovingToCallDown \<or> state t = AwaitingSelection \<longrightarrow>
        called_floor s = called_floor t \<and> dest_direction s = dest_direction t) \<and>
     (state t = MovingToDestinationUp \<or> state t = MovingToDestinationDown \<longrightarrow>
        destination s = destination t)"
  by (auto simp add: same_machine_def PendingCall_def PendingDestination_def)

lemma same_machine_limit:
  "same_machine s t \<Longrightarrow> same_machine (handle_limit_switch a s) (handle_limit_switch a t)"
  unfolding same_machine_iff
  by (simp add: handle_limit_switch_def Let_def stop_motor_def update_display_def)

lemma same_machine_elev:
  "same_machine s t \<Longrightarrow> same_machine (handle_elev_button a s) (handle_elev_button a t)"
  unfolding same_machine_iff
  by (cases "state t") (simp_all add: handle_elev_button_def Let_def)

lemma same_machine_tower:
  "same_machine s t \<Longrightarrow> same_machine (handle_tower_button a s) (handle_tower_button a t)"
proof (cases "state t = Idle")
  case False
  assume "same_machine s t"
  moreover from this False have "state s \<noteq> Idle" by (simp add: same_machine_iff)
  ultimately show ?thesis using False by (simp add: handle_tower_button_busy)
next
  case True
  assume "same_machine s t"
  with True have eq: "state s = Idle" "current_floor s = current_floor t"
    "P1OUT s = P1OUT t" "P2OUT s = P2OUT t" "TA0CCR1 s = TA0CCR1 t" "issued s = issued t"
    by (simp_all add: same_machine_iff)
  show ?thesis
    unfolding same_machine_iff handle_tower_button_def
    using True eq by (simp add: Let_def go_up_def go_down_def)
qed

lemma same_machine_state:
  "same_machine s t \<Longrightarrow> same_machine (handle_state s) (handle_state t)"
  unfolding same_machine_iff
  by (cases "state t")
     (simp_all add: handle_state_def go_up_def go_down_def stop_motor_def)

lemma same_machine_poll:
  "same_machine s t \<Longrightarrow> same_machine (poll p1in p2in s) (poll p1in p2in t)"
  by (simp add: poll_def Let_def same_machine_limit same_machine_elev same_machine_tower)

lemma same_machine_tick:
  "same_machine s t \<Longrightarrow>
   same_machine (WDT_interval_handler p1in p2in s) (WDT_interval_handler p1in p2in t)"
  by (simp add: WDT_poll same_machine_poll same_machine_state)

lemma same_machine_run:
  "same_machine s t \<Longrightarrow> same_machine (run ios s) (run ios t)"
  by (induction ios arbitrary: s t) (simp_all add: same_machine_tick)

text \<open>
  In Idle and in Initializing, the called floor, the direction and the destination may be
  replaced by any values, zero for instance: no later tick tells the difference, in the
  state, the current floor, the output registers, the motor calls, or in a call or
  destination that becomes pending later.
\<close>

lemma cleared_variables_unread:
  assumes "state s = Idle \<or> state s = Initializing"
  shows "same_machine (run ios (s\<lparr>called_floor := a, dest_direction := b, destination := c\<rparr>))
           (run ios s)"
proof (rule same_machine_run)
  show "same_machine (s\<lparr>called_floor := a, dest_direction := b, destination := c\<rparr>) s"
    using assms by (auto simp add: same_machine_def PendingCall_def PendingDestination_def)
qed

text \<open>
  Every branch of the switch on the state calls a motor function, so the intent in effect
  at the end of a tick is the one of the switch, whatever the handlers did before it.
\<close>

lemma tick_intent_from_switch:
  "motor_intent (WDT_interval_handler p1in p2in s) =
     Some (state_intent (state (WDT_interval_handler p1in p2in s))) \<and>
   last (issued (WDT_interval_handler p1in p2in s)) =
     state_intent (state (WDT_interval_handler p1in p2in s))"
  by (simp add: WDT_poll handle_state_intent handle_state_issued)

text \<open>
  The definitions of the program and of the observers of its ports, for evaluating it on
  given inputs.
\<close>

lemmas defs =
  power_on_def WDT_interval_handler_def handle_limit_switch_def handle_elev_button_def
  handle_tower_button_def handle_state_def stop_motor_def go_up_def go_down_def
  update_display_def get_limit_addr_def get_elev_addr_def get_tower_addr_def
  LIMIT_EN_def ELEV_EN_def TOWER_EN_def UPCTL_def DNCTL_def
  LIMIT_ADDR_MASK_def ELEV_ADDR_MASK_def TOWER_ADDR_MASK_def
  F1_UP_def F2_UP_def F2_DN_def F3_UP_def F3_DN_def F4_DN_def DIR_UP_def DIR_DN_def
  SEVENSEG_A0_def SEVENSEG_A1_def SEVENSEG_A2_def UP_DUTY_CYCLE_def DN_DUTY_CYCLE_def
  motor_intent_def limit_event_def elev_event_def tower_event_def poll_def

section \<open>Properties\<close>

text \<open>
  The port values used in the examples. On port 2, \<open>0x01\<close>, \<open>0x03\<close>, \<open>0x05\<close> and \<open>0x07\<close>
  are the limit switches of floors 1 to 4 and \<open>0x08\<close> is the in-elevator button of
  floor 1. A limit switch together with an in-elevator button: \<open>0x2B\<close> is floor 2 with
  the button of floor 3, \<open>0x0D\<close> is floor 3 with the button of floor 1, \<open>0x0F\<close> is
  floor 4 with the button of floor 1, and \<open>0x2F\<close> is floor 4 with the button of floor 3.
  On port 1, \<open>0xF0\<close> is the tower button \<open>F1_UP\<close>, \<open>0xB0\<close> is \<open>F2_UP\<close>, \<open>0x70\<close> is
  \<open>F3_UP\<close> and \<open>0x50\<close> is \<open>F4_DN\<close>.
\<close>

subsection \<open>The tower call handler\<close>

text \<open>
  C4. In every state other than Idle, a tower call event is rejected silently: the handler
  returns the machine exactly as it was, so the state, the called floor and direction, the
  destination and the motor registers are unchanged and no motor function is called
  (\<open>issued\<close> does not grow); the value of the tower port then has no influence on the
  tick. Put the other way round: when the handler changes anything, the state was Idle.
\<close>

theorem tower_call_rejected_unless_idle:
  "(state s \<noteq> Idle \<longrightarrow>
      handle_tower_button addr s = s \<and>
      WDT_interval_handler p1in p2in s = WDT_interval_handler 0 p2in s) \<and>
   (handle_tower_button addr s \<noteq> s \<longrightarrow> state s = Idle)"
proof -
  have 1: "handle_tower_button a s = s" if "state s \<noteq> Idle" for a
    using that by (rule handle_tower_button_busy)
  have 2: "WDT_interval_handler p1in p2in s = WDT_interval_handler 0 p2in s"
    if "state s \<noteq> Idle"
    using poll_tower_busy [OF that, of p1in p2in] by (simp add: WDT_poll)
  from 1 2 show ?thesis by blast
qed

text \<open>
  Scenario D: the car is on its way up to a call at floor 3 when the up button of floor 1
  is pressed. In Idle, the same handler accepts a call.
\<close>

theorem tower_call_rejected_unless_idle_witness:
  "state (run [(0, 0x01), (0x70, 0x01)] (power_on 0 0)) \<noteq> Idle \<and>
   handle_tower_button F1_UP (run [(0, 0x01), (0x70, 0x01)] (power_on 0 0)) =
     run [(0, 0x01), (0x70, 0x01)] (power_on 0 0) \<and>
   WDT_interval_handler 0xF0 0x01 (run [(0, 0x01), (0x70, 0x01)] (power_on 0 0)) =
     WDT_interval_handler 0 0x01 (run [(0, 0x01), (0x70, 0x01)] (power_on 0 0)) \<and>
   handle_tower_button F3_UP (run [(0, 0x01)] (power_on 0 0)) \<noteq>
     run [(0, 0x01)] (power_on 0 0) \<and>
   state (run [(0, 0x01)] (power_on 0 0)) = Idle"
  using tower_call_rejected_unless_idle
    [of "run [(0, 0x01), (0x70, 0x01)] (power_on 0 0)" F1_UP "0xF0" "0x01"]
    tower_call_rejected_unless_idle [of "run [(0, 0x01)] (power_on 0 0)" F3_UP 0 0]
  by (simp add: defs)

text \<open>
  C6. A tower call accepted in Idle stores the floor and the direction of the button, and
  the machine goes to AwaitingSelection when the floor called is the current floor, to
  MovingToCallUp when it is above the current floor, and to MovingToCallDown otherwise.
  The current floor is one of the four floors, as it is whenever the handler finds the
  machine Idle (\<open>idle_floor_in_range\<close>).
\<close>

theorem call_accepted:
  assumes "state s = Idle" and "tower_call a = Some (f, d)"
    and "1 \<le> current_floor s" and "current_floor s \<le> 4"
  shows "called_floor (handle_tower_button a s) = f \<and>
         dest_direction (handle_tower_button a s) = d \<and>
         state (handle_tower_button a s) =
           (if f = current_floor s then AwaitingSelection
            else if f > current_floor s then MovingToCallUp
            else MovingToCallDown)"
proof -
  have "f = current_floor s \<or> current_floor s < f \<or> f < current_floor s"
    by auto
  then show ?thesis
    using tower_accept [OF assms(1,2)] assms(3,4) by auto
qed

text \<open>Scenario B: Idle at floor 1, the up button of floor 3.\<close>

theorem call_accepted_witness:
  "state (run [(0, 0x01)] (power_on 0 0)) = Idle \<and> tower_call F3_UP = Some (3, DIR_UP) \<and>
   current_floor (run [(0, 0x01)] (power_on 0 0)) = 1 \<and>
   called_floor (handle_tower_button F3_UP (run [(0, 0x01)] (power_on 0 0))) = 3 \<and>
   dest_direction (handle_tower_button F3_UP (run [(0, 0x01)] (power_on 0 0))) = DIR_UP \<and>
   state (handle_tower_button F3_UP (run [(0, 0x01)] (power_on 0 0))) = MovingToCallUp"
  using call_accepted [of "run [(0, 0x01)] (power_on 0 0)" F3_UP 3 DIR_UP]
  by (simp add: defs tower_call_def)

subsection \<open>The destination handler\<close>

text \<open>
  C5. In AwaitingSelection, a selection of the current floor leaves the machine in
  AwaitingSelection; the machine leaves AwaitingSelection exactly when the direction of the
  call is up and the floor selected is above the current floor (to MovingToDestinationUp),
  or the direction is down and the floor selected is below the current floor (to
  MovingToDestinationDown); the floor selected is then the destination. Every other
  selection leaves the state AwaitingSelection.
\<close>

theorem destination_selection:
  assumes "state s = AwaitingSelection"
  shows "(addr + 1 = current_floor s \<longrightarrow>
            state (handle_elev_button addr s) = AwaitingSelection) \<and>
         (state (handle_elev_button addr s) \<noteq> AwaitingSelection \<longleftrightarrow>
            dest_direction s = DIR_UP \<and> addr + 1 > current_floor s \<or>
            dest_direction s = DIR_DN \<and> addr + 1 < current_floor s) \<and>
         (state (handle_elev_button addr s) = MovingToDestinationUp \<longleftrightarrow>
            dest_direction s = DIR_UP \<and> addr + 1 > current_floor s) \<and>
         (state (handle_elev_button addr s) = MovingToDestinationDown \<longleftrightarrow>
            dest_direction s = DIR_DN \<and> addr + 1 < current_floor s) \<and>
         (state (handle_elev_button addr s) = AwaitingSelection \<or>
          state (handle_elev_button addr s) = MovingToDestinationUp \<or>
          state (handle_elev_button addr s) = MovingToDestinationDown) \<and>
         destination (handle_elev_button addr s) = addr + 1"
  using assms by (auto simp add: handle_elev_button_def Let_def DIR_UP_def DIR_DN_def)

text \<open>
  Scenario C: the car waits at floor 2 after the call (2, up). Floor 1 is the wrong
  direction, floor 2 is where the car is, floor 4 is accepted.
\<close>

theorem destination_selection_witness:
  "state (run [(0, 0x01), (0xB0, 0x01), (0, 0x03)] (power_on 0 0)) = AwaitingSelection \<and>
   state (handle_elev_button 0 (run [(0, 0x01), (0xB0, 0x01), (0, 0x03)] (power_on 0 0))) = AwaitingSelection \<and>
   state (handle_elev_button 1 (run [(0, 0x01), (0xB0, 0x01), (0, 0x03)] (power_on 0 0))) = AwaitingSelection \<and>
   state (handle_elev_button 3 (run [(0, 0x01), (0xB0, 0x01), (0, 0x03)] (power_on 0 0))) = MovingToDestinationUp"
  using destination_selection [of "run [(0, 0x01), (0xB0, 0x01), (0, 0x03)] (power_on 0 0)" 0]
    destination_selection [of "run [(0, 0x01), (0xB0, 0x01), (0, 0x03)] (power_on 0 0)" 1]
    destination_selection [of "run [(0, 0x01), (0xB0, 0x01), (0, 0x03)] (power_on 0 0)" 3]
  by (simp add: defs)

text \<open>
  C10. In every state, the destination handler stores the floor selected before it looks
  at the state, and outside AwaitingSelection that is all it does. In
  MovingToDestinationUp and MovingToDestinationDown the state is kept and the new value is
  the one that the switch on the state compares with the current floor, in this tick and
  in the ticks that follow: the car is retargeted.
\<close>

theorem elev_button_overwrites_destination:
  "destination (handle_elev_button addr s) = addr + 1 \<and>
   (state s \<noteq> AwaitingSelection \<longrightarrow>
      handle_elev_button addr s = s\<lparr>destination := addr + 1\<rparr>) \<and>
   ((state s = MovingToDestinationUp \<or> state s = MovingToDestinationDown) \<and>
    elev_event p2in = Some f \<longrightarrow>
      state (poll p1in p2in s) = state s \<and>
      destination (poll p1in p2in s) = f \<and>
      destination (WDT_interval_handler p1in p2in s) = f \<and>
      state (WDT_interval_handler p1in p2in s) =
        (if f = current_floor (poll p1in p2in s) then Idle else state s) \<and>
      (elev_event p2in' = None \<and> f \<noteq> current_floor (poll p1in p2in s) \<longrightarrow>
         state (WDT_interval_handler p1in' p2in' (WDT_interval_handler p1in p2in s)) =
           (if f = current_floor (poll p1in' p2in' (WDT_interval_handler p1in p2in s))
            then Idle else state s)))"
proof -
  have 1: "destination (handle_elev_button addr s) = addr + 1" by simp
  have 2: "handle_elev_button addr s = s\<lparr>destination := addr + 1\<rparr>"
    if "state s \<noteq> AwaitingSelection"
    using that by (simp add: handle_elev_button_def Let_def)
  have 3: "state (poll p1in p2in s) = state s \<and>
      destination (poll p1in p2in s) = f \<and>
      destination (WDT_interval_handler p1in p2in s) = f \<and>
      state (WDT_interval_handler p1in p2in s) =
        (if f = current_floor (poll p1in p2in s) then Idle else state s) \<and>
      (elev_event p2in' = None \<and> f \<noteq> current_floor (poll p1in p2in s) \<longrightarrow>
         state (WDT_interval_handler p1in' p2in' (WDT_interval_handler p1in p2in s)) =
           (if f = current_floor (poll p1in' p2in' (WDT_interval_handler p1in p2in s))
            then Idle else state s))"
    if m: "state s = MovingToDestinationUp \<or> state s = MovingToDestinationDown"
      and e: "elev_event p2in = Some f"
  proof -
    let ?s1 = "WDT_interval_handler p1in p2in s"
    have wp: "with_passenger (state s)" using m by auto
    have a: "state (poll p1in p2in s) = state s"
      using wp by (rule poll_state_with_passenger)
    have b: "destination (poll p1in p2in s) = f"
      using e by (rule poll_elev_destination)
    have c: "destination ?s1 = f"
      using b by (simp add: WDT_poll)
    have d: "state ?s1 = (if f = current_floor (poll p1in p2in s) then Idle else state s)"
      using m a b by (auto simp add: WDT_poll handle_state_def)
    have "state (WDT_interval_handler p1in' p2in' ?s1) =
           (if f = current_floor (poll p1in' p2in' ?s1) then Idle else state s)"
      if n: "elev_event p2in' = None" and ne: "f \<noteq> current_floor (poll p1in p2in s)"
    proof -
      have s1: "state ?s1 = state s" using d ne by simp
      then have "with_passenger (state ?s1)" using wp by simp
      then have "state (poll p1in' p2in' ?s1) = state s"
        using s1 by (simp add: poll_state_with_passenger)
      moreover have "destination (poll p1in' p2in' ?s1) = f"
        using n c by (simp add: poll_no_elev_destination)
      ultimately show ?thesis
        using m by (auto simp add: WDT_poll [of p1in' p2in'] handle_state_def)
    qed
    with a b c d show ?thesis by blast
  qed
  from 1 2 3 show ?thesis by blast
qed

text \<open>
  The car is going up from floor 2 to its destination, floor 3, when the passenger presses
  the button of floor 1.
\<close>

theorem elev_button_overwrites_destination_witness:
  "state (run [(0, 0x01), (0xB0, 0x01), (0, 0x03), (0, 0x2B)] (power_on 0 0)) =
     MovingToDestinationUp \<and>
   destination (run [(0, 0x01), (0xB0, 0x01), (0, 0x03), (0, 0x2B)] (power_on 0 0)) = 3 \<and>
   elev_event 0x08 = Some 1 \<and> elev_event 0x05 = None \<and>
   handle_elev_button 0 (run [(0, 0x01), (0xB0, 0x01), (0, 0x03), (0, 0x2B)] (power_on 0 0)) =
     (run [(0, 0x01), (0xB0, 0x01), (0, 0x03), (0, 0x2B)] (power_on 0 0))
       \<lparr>destination := 1\<rparr> \<and>
   destination (WDT_interval_handler 0 0x08
     (run [(0, 0x01), (0xB0, 0x01), (0, 0x03), (0, 0x2B)] (power_on 0 0))) = 1 \<and>
   state (WDT_interval_handler 0 0x08
     (run [(0, 0x01), (0xB0, 0x01), (0, 0x03), (0, 0x2B)] (power_on 0 0))) =
     MovingToDestinationUp \<and>
   state (WDT_interval_handler 0 0x05 (WDT_interval_handler 0 0x08
     (run [(0, 0x01), (0xB0, 0x01), (0, 0x03), (0, 0x2B)] (power_on 0 0)))) =
     MovingToDestinationUp"
  using elev_button_overwrites_destination
    [of 0 "run [(0, 0x01), (0xB0, 0x01), (0, 0x03), (0, 0x2B)] (power_on 0 0)" "0x08" 1 0
      "0x05" 0]
  by (simp add: defs)

text \<open>
  C2. The same execution, continued: the destination was floor 3 and the selection made in
  motion replaces it by floor 1. The car then passes floor 3 and is still going up at
  floor 4, the top of the tower.
\<close>

theorem selection_in_motion_retargets:
  "state (run [(0, 0x01), (0xB0, 0x01), (0, 0x03), (0, 0x2B)] (power_on 0 0)) =
     MovingToDestinationUp \<and>
   PendingDestination (run [(0, 0x01), (0xB0, 0x01), (0, 0x03), (0, 0x2B)] (power_on 0 0)) =
     Some 3 \<and>
   elev_event 0x08 = Some 1 \<and>
   PendingDestination (WDT_interval_handler 0 0x08
     (run [(0, 0x01), (0xB0, 0x01), (0, 0x03), (0, 0x2B)] (power_on 0 0))) = Some 1 \<and>
   state (run [(0, 0x08), (0, 0x05), (0, 0x07), (0, 0x07)]
     (run [(0, 0x01), (0xB0, 0x01), (0, 0x03), (0, 0x2B)] (power_on 0 0))) =
     MovingToDestinationUp \<and>
   current_floor (run [(0, 0x08), (0, 0x05), (0, 0x07), (0, 0x07)]
     (run [(0, 0x01), (0xB0, 0x01), (0, 0x03), (0, 0x2B)] (power_on 0 0))) = 4 \<and>
   motor_intent (run [(0, 0x08), (0, 0x05), (0, 0x07), (0, 0x07)]
     (run [(0, 0x01), (0xB0, 0x01), (0, 0x03), (0, 0x2B)] (power_on 0 0))) = Some Up"
  by (simp add: defs PendingDestination_def)

subsection \<open>The tick\<close>

text \<open>
  C1. The specification has every tick whose position event reports floor 1 or floor 4
  end with the motor on Hold, whatever the state. The program does call \<open>stop_motor\<close> in
  the limit switch handler, to keep the car within the tower as the comment there says, but
  the switch on the state runs after it in the same tick and calls a motor function of its
  own. Here the car was called up to floor 3 and the limit switch of
  floor 3 was missed: the tick that reports floor 4, the top of the tower, issues Hold and
  then Up, and ends with the car driven up. Likewise a car going down to floor 3 that
  missed it is still driven down in the tick that reports floor 1.
\<close>

theorem limit_stop_overridden:
  "state (run [(0, 0x01), (0x70, 0x01), (0, 0x03)] (power_on 0 0)) = MovingToCallUp \<and>
   called_floor (run [(0, 0x01), (0x70, 0x01), (0, 0x03)] (power_on 0 0)) = 3 \<and>
   current_floor (run [(0, 0x01), (0x70, 0x01), (0, 0x03)] (power_on 0 0)) = 2 \<and>
   limit_event 0x07 = Some 4 \<and>
   motor_intent (handle_limit_switch (get_limit_addr 0x07)
     (run [(0, 0x01), (0x70, 0x01), (0, 0x03)] (power_on 0 0))) = Some Hold \<and>
   current_floor (WDT_interval_handler 0 0x07
     (run [(0, 0x01), (0x70, 0x01), (0, 0x03)] (power_on 0 0))) = 4 \<and>
   state (WDT_interval_handler 0 0x07
     (run [(0, 0x01), (0x70, 0x01), (0, 0x03)] (power_on 0 0))) = MovingToCallUp \<and>
   motor_intent (WDT_interval_handler 0 0x07
     (run [(0, 0x01), (0x70, 0x01), (0, 0x03)] (power_on 0 0))) = Some Up \<and>
   issued (WDT_interval_handler 0 0x07
     (run [(0, 0x01), (0x70, 0x01), (0, 0x03)] (power_on 0 0))) =
     issued (run [(0, 0x01), (0x70, 0x01), (0, 0x03)] (power_on 0 0)) @ [Hold, Up] \<and>
   state (run [(0, 0x01), (0x50, 0x01), (0, 0x03), (0, 0x05), (0, 0x07), (0, 0x2F)]
     (power_on 0 0)) = MovingToDestinationDown \<and>
   destination (run [(0, 0x01), (0x50, 0x01), (0, 0x03), (0, 0x05), (0, 0x07), (0, 0x2F)]
     (power_on 0 0)) = 3 \<and>
   limit_event 0x01 = Some 1 \<and>
   motor_intent (WDT_interval_handler 0 0x01
     (run [(0, 0x01), (0x50, 0x01), (0, 0x03), (0, 0x05), (0, 0x07), (0, 0x2F), (0, 0x03)]
       (power_on 0 0))) = Some Down"
  by (simp add: defs)

text \<open>
  C3. In a tick taken in MovingToDestinationUp or MovingToDestinationDown, when the current
  floor equals the destination at the switch on the state, the machine goes to Idle, no
  call and no destination is pending any more, and the motor is stopped; when they differ
  the state is kept and the motor goes up (respectively down).
\<close>

theorem destination_reached:
  assumes "state s = MovingToDestinationUp \<or> state s = MovingToDestinationDown"
  shows "(destination (poll p1in p2in s) = current_floor (poll p1in p2in s) \<longrightarrow>
            state (WDT_interval_handler p1in p2in s) = Idle \<and>
            PendingCall (WDT_interval_handler p1in p2in s) = None \<and>
            PendingDestination (WDT_interval_handler p1in p2in s) = None \<and>
            last (issued (WDT_interval_handler p1in p2in s)) = Hold \<and>
            motor_intent (WDT_interval_handler p1in p2in s) = Some Hold) \<and>
         (destination (poll p1in p2in s) \<noteq> current_floor (poll p1in p2in s) \<longrightarrow>
            state (WDT_interval_handler p1in p2in s) = state s \<and>
            last (issued (WDT_interval_handler p1in p2in s)) = state_intent (state s) \<and>
            motor_intent (WDT_interval_handler p1in p2in s) = Some (state_intent (state s)))"
proof -
  from assms have wp: "with_passenger (state s)"
    by auto
  have st: "state (poll p1in p2in s) = state s"
    using wp by (rule poll_state_with_passenger)
  have idle: "PendingCall t = None \<and> PendingDestination t = None" if "state t = Idle" for t
    using that by (simp add: PendingCall_def PendingDestination_def)
  have arrive: "state (handle_state (poll p1in p2in s)) = Idle \<and>
      last (issued (handle_state (poll p1in p2in s))) = Hold \<and>
      motor_intent (handle_state (poll p1in p2in s)) = Some Hold"
    if "destination (poll p1in p2in s) = current_floor (poll p1in p2in s)"
    using that assms st by (auto simp add: handle_state_def)
  have keep: "state (handle_state (poll p1in p2in s)) = state s \<and>
      last (issued (handle_state (poll p1in p2in s))) = state_intent (state s) \<and>
      motor_intent (handle_state (poll p1in p2in s)) = Some (state_intent (state s))"
    if "destination (poll p1in p2in s) \<noteq> current_floor (poll p1in p2in s)"
    using that assms st by (auto simp add: handle_state_def)
  show ?thesis
    unfolding WDT_poll using arrive keep idle by blast
qed

text \<open>
  The car is going up from floor 2 to floor 3: a tick that reports floor 3 ends in Idle, a
  tick that reports floor 2 again keeps it going up.
\<close>

theorem destination_reached_witness:
  "state (run [(0, 0x01), (0xB0, 0x01), (0, 0x03), (0, 0x2B)] (power_on 0 0)) =
     MovingToDestinationUp \<and>
   PendingDestination (run [(0, 0x01), (0xB0, 0x01), (0, 0x03), (0, 0x2B)] (power_on 0 0)) =
     Some 3 \<and>
   current_floor (poll 0 0x05
     (run [(0, 0x01), (0xB0, 0x01), (0, 0x03), (0, 0x2B)] (power_on 0 0))) = 3 \<and>
   state (WDT_interval_handler 0 0x05
     (run [(0, 0x01), (0xB0, 0x01), (0, 0x03), (0, 0x2B)] (power_on 0 0))) = Idle \<and>
   PendingCall (WDT_interval_handler 0 0x05
     (run [(0, 0x01), (0xB0, 0x01), (0, 0x03), (0, 0x2B)] (power_on 0 0))) = None \<and>
   PendingDestination (WDT_interval_handler 0 0x05
     (run [(0, 0x01), (0xB0, 0x01), (0, 0x03), (0, 0x2B)] (power_on 0 0))) = None \<and>
   last (issued (WDT_interval_handler 0 0x05
     (run [(0, 0x01), (0xB0, 0x01), (0, 0x03), (0, 0x2B)] (power_on 0 0)))) = Hold \<and>
   current_floor (poll 0 0x03
     (run [(0, 0x01), (0xB0, 0x01), (0, 0x03), (0, 0x2B)] (power_on 0 0))) = 2 \<and>
   state (WDT_interval_handler 0 0x03
     (run [(0, 0x01), (0xB0, 0x01), (0, 0x03), (0, 0x2B)] (power_on 0 0))) =
     MovingToDestinationUp \<and>
   last (issued (WDT_interval_handler 0 0x03
     (run [(0, 0x01), (0xB0, 0x01), (0, 0x03), (0, 0x2B)] (power_on 0 0)))) = Up"
  using
    destination_reached
      [of "run [(0, 0x01), (0xB0, 0x01), (0, 0x03), (0, 0x2B)] (power_on 0 0)" 0 "0x05"]
    destination_reached
      [of "run [(0, 0x01), (0xB0, 0x01), (0, 0x03), (0, 0x2B)] (power_on 0 0)" 0 "0x03"]
  by (simp add: defs PendingCall_def PendingDestination_def)

text \<open>
  C7. A tick is the three polls followed by the switch on the state, and the limit switch
  is polled first. So in a tick with a position event the floor reported is the current
  floor that the two button handlers and the switch on the state see, and the floor stored
  before the tick has no influence on the tick at all. In particular, a car that reaches
  the floor it was called to, or its destination, or that is called to the floor it has
  just reached, makes its transition in that same tick.
\<close>

theorem tick_order:
  "WDT_interval_handler p1in p2in s = handle_state (poll p1in p2in s) \<and>
   (limit_event p2in = Some f \<longrightarrow>
      current_floor (poll p1in p2in s) = f \<and>
      current_floor (WDT_interval_handler p1in p2in s) = f \<and>
      WDT_interval_handler p1in p2in (s\<lparr>current_floor := c\<rparr>) =
        WDT_interval_handler p1in p2in s \<and>
      ((state s = MovingToCallUp \<or> state s = MovingToCallDown) \<and> called_floor s = f \<longrightarrow>
         state (WDT_interval_handler p1in p2in s) = AwaitingSelection) \<and>
      ((state s = MovingToDestinationUp \<or> state s = MovingToDestinationDown) \<and>
         destination (poll p1in p2in s) = f \<longrightarrow>
         state (WDT_interval_handler p1in p2in s) = Idle) \<and>
      (state s = Idle \<and> tower_event p1in = Some a \<and> tower_call a = Some (f, d) \<longrightarrow>
         state (WDT_interval_handler p1in p2in s) = AwaitingSelection))"
proof -
  have 1: "WDT_interval_handler p1in p2in s = handle_state (poll p1in p2in s)"
    by (rule WDT_poll)
  have 2: "current_floor (poll p1in p2in s) = f" if "limit_event p2in = Some f"
    using that by (rule poll_limit_floor)
  have 3: "WDT_interval_handler p1in p2in (s\<lparr>current_floor := c\<rparr>) =
        WDT_interval_handler p1in p2in s" if "limit_event p2in = Some f"
    using that by (simp add: WDT_poll poll_stale)
  have 4: "state (WDT_interval_handler p1in p2in s) = AwaitingSelection"
    if "limit_event p2in = Some f" "state s = MovingToCallUp \<or> state s = MovingToCallDown"
      "called_floor s = f"
  proof -
    have "state s \<noteq> Idle" "state s \<noteq> AwaitingSelection" using that(2) by auto
    then have "state (poll p1in p2in s) = state s"
      by (simp add: poll_def Let_def handle_elev_button_state handle_tower_button_busy)
    moreover have "called_floor (poll p1in p2in s) = f"
      using poll_call_frame [OF \<open>state s \<noteq> Idle\<close>] that(3) by simp
    ultimately show ?thesis
      using that(2) 2 [OF that(1)] by (auto simp add: WDT_poll handle_state_def)
  qed
  have 5: "state (WDT_interval_handler p1in p2in s) = Idle"
    if "limit_event p2in = Some f"
      "state s = MovingToDestinationUp \<or> state s = MovingToDestinationDown"
      "destination (poll p1in p2in s) = f"
  proof -
    have "state (poll p1in p2in s) = state s"
      using that(2) by (auto intro: poll_state_with_passenger)
    then show ?thesis
      using that(2,3) 2 [OF that(1)] by (auto simp add: WDT_poll handle_state_def)
  qed
  have 6: "state (WDT_interval_handler p1in p2in s) = AwaitingSelection"
    if "limit_event p2in = Some f" "state s = Idle" "tower_event p1in = Some a"
      "tower_call a = Some (f, d)"
  proof -
    let ?s2 = "(if p2in AND ELEV_EN \<noteq> 0
         then handle_elev_button (get_elev_addr p2in) (handle_limit_switch (get_limit_addr p2in) s)
         else handle_limit_switch (get_limit_addr p2in) s)"
    have p: "poll p1in p2in s = handle_tower_button a ?s2"
      using that(1,3) by (auto simp add: poll_def limit_event_def tower_event_def Let_def split: if_splits)
    have s2: "state ?s2 = Idle" "current_floor ?s2 = f"
      using that(1,2) by (auto simp add: handle_elev_button_state limit_event_def split: if_splits)
    have "state (handle_tower_button a ?s2) = AwaitingSelection"
      using tower_accept(3) [OF s2(1) that(4)] s2(2) by simp
    then show ?thesis by (simp add: WDT_poll p handle_state_def)
  qed
  have 7: "current_floor (WDT_interval_handler p1in p2in s) = f" if "limit_event p2in = Some f"
    using 2 [OF that] by (simp add: WDT_poll)
  from 1 2 3 4 5 6 7 show ?thesis by blast
qed

text \<open>
  Three arrivals: at the floor of the call, at the destination, and a call from the floor
  where the car stands.
\<close>

theorem tick_order_witness:
  "limit_event 0x05 = Some 3 \<and> limit_event 0x01 = Some 1 \<and>
   state (run [(0, 0x01), (0x70, 0x01), (0, 0x03)] (power_on 0 0)) = MovingToCallUp \<and>
   called_floor (run [(0, 0x01), (0x70, 0x01), (0, 0x03)] (power_on 0 0)) = 3 \<and>
   current_floor (run [(0, 0x01), (0x70, 0x01), (0, 0x03)] (power_on 0 0)) = 2 \<and>
   state (WDT_interval_handler 0 0x05
            (run [(0, 0x01), (0x70, 0x01), (0, 0x03)] (power_on 0 0))) = AwaitingSelection \<and>
   state (run [(0, 0x01), (0xB0, 0x01), (0, 0x03), (0, 0x2B)] (power_on 0 0)) =
     MovingToDestinationUp \<and>
   destination (poll 0 0x05
     (run [(0, 0x01), (0xB0, 0x01), (0, 0x03), (0, 0x2B)] (power_on 0 0))) = 3 \<and>
   state (WDT_interval_handler 0 0x05
     (run [(0, 0x01), (0xB0, 0x01), (0, 0x03), (0, 0x2B)] (power_on 0 0))) = Idle \<and>
   state (run [(0, 0x01)] (power_on 0 0)) = Idle \<and>
   tower_event 0xF0 = Some F1_UP \<and> tower_call F1_UP = Some (1, DIR_UP) \<and>
   state (WDT_interval_handler 0xF0 0x01 (run [(0, 0x01)] (power_on 0 0))) =
     AwaitingSelection"
  using
    tick_order [of 0 "0x05" "run [(0, 0x01), (0x70, 0x01), (0, 0x03)] (power_on 0 0)" 3 2 0 0]
    tick_order [of 0 "0x05"
      "run [(0, 0x01), (0xB0, 0x01), (0, 0x03), (0, 0x2B)] (power_on 0 0)" 3 2 0 0]
    tick_order [of "0xF0" "0x01" "run [(0, 0x01)] (power_on 0 0)" 1 1 F1_UP DIR_UP]
  by (simp add: defs tower_call_def)

subsection \<open>Sequences of ticks\<close>

text \<open>
  C8. From Idle or AwaitingSelection, any number of ticks with no position, call or
  destination event leave the state, the called floor and direction, the destination and
  the current floor as they were; each of these ticks calls \<open>stop_motor\<close> once and no other
  motor function, and Hold is the intent in effect after each of them.
\<close>

theorem hold_idempotent:
  assumes "state s = Idle \<or> state s = AwaitingSelection"
    and "\<forall>io \<in> set ios. no_events io"
  shows "state (run ios s) = state s \<and>
         called_floor (run ios s) = called_floor s \<and>
         dest_direction (run ios s) = dest_direction s \<and>
         destination (run ios s) = destination s \<and>
         current_floor (run ios s) = current_floor s \<and>
         issued (run ios s) = issued s @ replicate (length ios) Hold \<and>
         (ios \<noteq> [] \<longrightarrow> motor_intent (run ios s) = Some Hold)"
  using assms
proof (induction ios arbitrary: s)
  case Nil
  then show ?case by simp
next
  case (Cons io ios)
  let ?s1 = "WDT_interval_handler (fst io) (snd io) s"
  have ne: "no_events io" using Cons.prems(2) by simp
  note t = idle_tick [OF Cons.prems(1) ne]
  have st1: "state ?s1 = Idle \<or> state ?s1 = AwaitingSelection"
    using t(1) Cons.prems(1) by simp
  have rest: "\<forall>io \<in> set ios. no_events io" using Cons.prems(2) by simp
  note IH = Cons.IH [OF st1 rest]
  have mi: "motor_intent (run ios ?s1) = Some Hold"
    using IH t(3) by (cases ios) simp_all
  show ?case
    using IH t mi by (simp add: replicate_append_same [symmetric] del: replicate_append_same)
qed

text \<open>
  Three quiet ticks in AwaitingSelection; the address lines of the ports may hold anything
  as long as the enable lines are low.
\<close>

theorem hold_idempotent_witness:
  "state (run [(0, 0x01), (0xB0, 0x01), (0, 0x03)] (power_on 0 0)) = AwaitingSelection \<and>
   no_events (0xE0, 0x36) \<and> no_events (0, 0) \<and> no_events (0x0F, 0xF6) \<and>
   state (run [(0xE0, 0x36), (0, 0), (0x0F, 0xF6)]
     (run [(0, 0x01), (0xB0, 0x01), (0, 0x03)] (power_on 0 0))) = AwaitingSelection \<and>
   issued (run [(0xE0, 0x36), (0, 0), (0x0F, 0xF6)]
     (run [(0, 0x01), (0xB0, 0x01), (0, 0x03)] (power_on 0 0))) =
   issued (run [(0, 0x01), (0xB0, 0x01), (0, 0x03)] (power_on 0 0)) @ [Hold, Hold, Hold]"
  using hold_idempotent [of "run [(0, 0x01), (0xB0, 0x01), (0, 0x03)] (power_on 0 0)"
      "[(0xE0, 0x36), (0, 0), (0x0F, 0xF6)]"]
  by (simp add: defs no_events_def)

text \<open>
  From a moving state, let every tick report the next floor on the way from the current
  floor to the target (the called floor in MovingToCallUp and MovingToCallDown, the
  destination in MovingToDestinationUp and MovingToDestinationDown), with no destination
  event on the way when the car carries a passenger. Then after as many ticks as there are
  floors between the current floor and the target the machine is in AwaitingSelection
  (respectively Idle) at the target floor, and after any smaller number of ticks it is
  still in the moving state. The car is not at its target when it starts, as at the end of
  every tick that leaves it moving (\<open>run_moving_not_arrived\<close>).
\<close>

lemma convergence_without_selection:
  assumes "moving (state s)"
    and "current_floor s \<noteq> target s"
    and "length ios = floor_distance (unat (current_floor s)) (unat (target s))"
    and "\<forall>i < length ios. map_option unat (limit_event (snd (ios ! i))) =
           Some (toward (unat (current_floor s)) (unat (target s)) (Suc i))"
    and "with_passenger (state s) \<longrightarrow> (\<forall>io \<in> set ios. elev_event (snd io) = None)"
  shows "state (run ios s) = arrival (state s) \<and>
         current_floor (run ios s) = target s \<and>
         (\<forall>k < length ios. state (run (take k ios) s) = state s)"
proof -
  let ?c = "unat (current_floor s)" and ?t = "unat (target s)"
  let ?n = "floor_distance ?c ?t"
  have "?c \<noteq> ?t" using assms(2) by (simp add: word_unat_eq_iff)
  then have n: "0 < ?n" by (simp add: floor_distance_def)
  then have "ios \<noteq> []" using assms(3) by auto
  then obtain pre lst where ios: "ios = pre @ [lst]"
    by (metis rev_exhaust)
  have len: "length pre = ?n - 1" and len': "Suc (length pre) = ?n"
    using assms(3) ios by simp_all
  have walk: "map_option unat (limit_event (snd (ios ! i))) = Some (toward ?c ?t (Suc i))"
    if "i < length ios" for i
    using assms(4) that by blast
  have early: "\<exists>f. limit_event (snd io) = Some f \<and> f \<noteq> target s" if "io \<in> set pre" for io
  proof -
    from that obtain i where i: "i < length pre" "pre ! i = io"
      by (auto simp add: in_set_conv_nth)
    then have "ios ! i = io" and "i < length ios"
      using ios by (simp_all add: nth_append)
    then have "map_option unat (limit_event (snd io)) = Some (toward ?c ?t (Suc i))"
      using walk [of i] by simp
    then obtain f where f: "limit_event (snd io) = Some f" "unat f = toward ?c ?t (Suc i)"
      by auto
    have "Suc i < ?n" using i(1) len' by simp
    then have "toward ?c ?t (Suc i) \<noteq> ?t"
      using toward_eq_target [of "Suc i" ?c ?t] by simp
    then have "f \<noteq> target s" using f(2) by auto
    then show ?thesis using f(1) by blast
  qed
  have quiet: "with_passenger (state s) \<longrightarrow> (\<forall>io \<in> set xs. elev_event (snd io) = None)"
    if "set xs \<subseteq> set ios" for xs
    using that assms(5) by auto
  have keep: "state (run xs s) = state s \<and> target (run xs s) = target s"
    if "set xs \<subseteq> set pre" for xs
  proof (rule run_not_arrived [OF assms(1)])
    show "with_passenger (state s) \<longrightarrow> (\<forall>io \<in> set xs. elev_event (snd io) = None)"
      using that ios by (intro quiet) auto
    show "\<forall>io \<in> set xs. \<exists>f. limit_event (snd io) = Some f \<and> f \<noteq> target s"
      using that early by blast
  qed
  let ?s1 = "run pre s"
  have s1: "state ?s1 = state s" "target ?s1 = target s"
    using keep [of pre] by simp_all
  have "ios ! length pre = lst" and "length pre < length ios"
    using ios by simp_all
  then have "map_option unat (limit_event (snd lst)) = Some (toward ?c ?t ?n)"
    using walk [of "length pre"] len' by simp
  then obtain f where f: "limit_event (snd lst) = Some f" "unat f = toward ?c ?t ?n"
    by auto
  have "toward ?c ?t ?n = ?t"
    using toward_eq_target [of ?n ?c ?t] by simp
  then have ft: "f = target s" using f(2) by (simp add: word_unat_eq_iff)
  have m1: "moving (state ?s1)" using s1(1) assms(1) by simp
  have e1: "with_passenger (state ?s1) \<longrightarrow> elev_event (snd lst) = None"
    using s1(1) assms(5) ios by simp
  have fin: "state (run ios s) = arrival (state s)" "current_floor (run ios s) = target s"
    using tick_moving(1,4) [OF m1 e1 f(1)] ft s1 by (simp_all add: ios run_append)
  have "state (run (take k ios) s) = state s" if "k < length ios" for k
  proof -
    have "take k ios = take k pre" using that ios by simp
    moreover have "set (take k pre) \<subseteq> set pre" by (rule set_take_subset)
    ultimately show ?thesis using keep by simp
  qed
  with fin show ?thesis by blast
qed

text \<open>
  The car was called to floor 4 and the passenger selected floor 1: three ticks, reporting
  floors 3, 2 and 1, take it from MovingToDestinationDown to Idle.
\<close>

lemma convergence_without_selection_example:
  "state (run [(0, 0x01), (0x50, 0x01), (0, 0x03), (0, 0x05), (0, 0x07), (0, 0x0F)]
     (power_on 0 0)) = MovingToDestinationDown \<and>
   current_floor (run [(0, 0x01), (0x50, 0x01), (0, 0x03), (0, 0x05), (0, 0x07), (0, 0x0F)]
     (power_on 0 0)) = 4 \<and>
   target (run [(0, 0x01), (0x50, 0x01), (0, 0x03), (0, 0x05), (0, 0x07), (0, 0x0F)]
     (power_on 0 0)) = 1 \<and>
   state (run [(0, 0x05), (0, 0x03), (0, 0x01)]
     (run [(0, 0x01), (0x50, 0x01), (0, 0x03), (0, 0x05), (0, 0x07), (0, 0x0F)]
       (power_on 0 0))) = Idle \<and>
   state (run [(0, 0x05), (0, 0x03)]
     (run [(0, 0x01), (0x50, 0x01), (0, 0x03), (0, 0x05), (0, 0x07), (0, 0x0F)]
       (power_on 0 0))) = MovingToDestinationDown"
  using convergence_without_selection
    [of "run [(0, 0x01), (0x50, 0x01), (0, 0x03), (0, 0x05), (0, 0x07), (0, 0x0F)]
      (power_on 0 0)" "[(0, 0x05), (0, 0x03), (0, 0x01)]"]
  by (simp add: defs target_def)

text \<open>
  C9. The specification has position updates that walk the car to its target bring the
  machine to AwaitingSelection (respectively Idle) in as many ticks as the floor distance.
  In the program a destination event on the way breaks this: the car is going up from floor 2 to its
  destination, floor 3, one floor away, and the tick that reports floor 3 also carries the
  in-elevator button of floor 1. The handler stores floor 1 before the switch on the state
  compares, so after that one tick the machine is still in MovingToDestinationUp, at
  floor 3, with the motor going up.
\<close>

theorem selection_breaks_convergence:
  "state (run [(0, 0x01), (0xB0, 0x01), (0, 0x03), (0, 0x2B)] (power_on 0 0)) =
     MovingToDestinationUp \<and>
   current_floor (run [(0, 0x01), (0xB0, 0x01), (0, 0x03), (0, 0x2B)] (power_on 0 0)) = 2 \<and>
   PendingDestination (run [(0, 0x01), (0xB0, 0x01), (0, 0x03), (0, 0x2B)] (power_on 0 0)) =
     Some 3 \<and>
   floor_distance 2 3 = 1 \<and>
   limit_event 0x0D = Some 3 \<and>
   current_floor (WDT_interval_handler 0 0x0D
     (run [(0, 0x01), (0xB0, 0x01), (0, 0x03), (0, 0x2B)] (power_on 0 0))) = 3 \<and>
   state (WDT_interval_handler 0 0x0D
     (run [(0, 0x01), (0xB0, 0x01), (0, 0x03), (0, 0x2B)] (power_on 0 0))) =
     MovingToDestinationUp \<and>
   motor_intent (WDT_interval_handler 0 0x0D
     (run [(0, 0x01), (0xB0, 0x01), (0, 0x03), (0, 0x2B)] (power_on 0 0))) = Some Up"
  by (simp add: defs PendingDestination_def floor_distance_def)

end
